theory Spec2Isabelle
  imports Main "HOL-Library.Log_Nat" "HOL-Library.Word" "HOL-Library.Sublist"
begin

section \<open>Floating-point values of the driver\<close>

text \<open>
  The driver keeps every voltage and the pH value in C++ \<open>float\<close> variables (IEEE-754
  binary32) and evaluates the expressions of \<open>readPH\<close> in \<open>double\<close> (binary64),
  because their literals (\<open>7.0\<close>, \<open>1500.0\<close>, \<open>3.0\<close>) are doubles. A value is a
  finite rational, negative zero, an infinity or NaN; \<open>Fin 0\<close> is positive zero. Each
  arithmetic operation computes the exact rational result and rounds it to the format of
  the operation, to nearest with ties to even, with gradual underflow and overflow to
  infinity.
\<close>

datatype fp = Fin rat | NegZero | PInf | NInf | NaN

record format =
  prec :: nat
  emin :: int
  emax :: int

definition binary32 :: format where
  "binary32 = \<lparr>prec = 24, emin = - 126, emax = 127\<rparr>"

definition binary64 :: format where
  "binary64 = \<lparr>prec = 53, emin = - 1022, emax = 1023\<rparr>"

definition pow2 :: "int \<Rightarrow> rat" where
  "pow2 e = (if 0 \<le> e then 2 ^ nat e else 1 / 2 ^ nat (- e))"

text \<open>\<open>ilog2 r\<close> is the exponent \<open>e\<close> with \<open>2^e \<le> r < 2^(e+1)\<close>, for \<open>r > 0\<close>.\<close>

definition ilog2 :: "rat \<Rightarrow> int" where
  "ilog2 r = (case quotient_of r of (a, b) \<Rightarrow>
     (let e = bitlen a - bitlen b
      in if pow2 e \<le> r then e else e - 1))"

text \<open>Rounding a rational to the nearest integer, ties to the even one.\<close>

definition rhe :: "rat \<Rightarrow> int" where
  "rhe t = (let f = \<lfloor>t\<rfloor>; d = t - of_int f
     in if d < 1 / 2 then f else if 1 / 2 < d then f + 1
        else if even f then f else f + 1)"

definition zero_s :: "bool \<Rightarrow> fp" where
  "zero_s neg = (if neg then NegZero else Fin 0)"

definition inf_s :: "bool \<Rightarrow> fp" where
  "inf_s neg = (if neg then NInf else PInf)"

definition round_to :: "format \<Rightarrow> rat \<Rightarrow> fp" where
  "round_to fmt r = (if r = 0 then Fin 0 else
     (let e = max (ilog2 \<bar>r\<bar>) (emin fmt);
          q = pow2 (e - int (prec fmt) + 1);
          m = of_int (rhe (\<bar>r\<bar> / q)) * q
      in if m = 0 then zero_s (r < 0)
         else if emax fmt < ilog2 m then inf_s (r < 0)
         else Fin (if r < 0 then - m else m)))"

definition is_nan :: "fp \<Rightarrow> bool" where
  "is_nan x = (x = NaN)"

definition is_inf :: "fp \<Rightarrow> bool" where
  "is_inf x = (x = PInf \<or> x = NInf)"

definition is_zero :: "fp \<Rightarrow> bool" where
  "is_zero x = (x = Fin 0 \<or> x = NegZero)"

definition is_finite :: "fp \<Rightarrow> bool" where
  "is_finite x = (case x of Fin r \<Rightarrow> True | NegZero \<Rightarrow> True | PInf \<Rightarrow> False
     | NInf \<Rightarrow> False | NaN \<Rightarrow> False)"

definition signbit :: "fp \<Rightarrow> bool" where
  "signbit x = (case x of Fin r \<Rightarrow> r < 0 | NegZero \<Rightarrow> True | PInf \<Rightarrow> False
     | NInf \<Rightarrow> True | NaN \<Rightarrow> False)"

definition valof :: "fp \<Rightarrow> rat" where
  "valof x = (case x of Fin r \<Rightarrow> r | NegZero \<Rightarrow> 0 | PInf \<Rightarrow> 0 | NInf \<Rightarrow> 0 | NaN \<Rightarrow> 0)"

definition fneg :: "fp \<Rightarrow> fp" where
  "fneg x = (case x of Fin r \<Rightarrow> (if r = 0 then NegZero else Fin (- r))
     | NegZero \<Rightarrow> Fin 0 | PInf \<Rightarrow> NInf | NInf \<Rightarrow> PInf | NaN \<Rightarrow> NaN)"

definition fadd :: "format \<Rightarrow> fp \<Rightarrow> fp \<Rightarrow> fp" where
  "fadd fmt x y =
     (if is_nan x \<or> is_nan y then NaN
      else if is_inf x then (if is_inf y \<and> x \<noteq> y then NaN else x)
      else if is_inf y then y
      else (let r = valof x + valof y
            in if r = 0 then zero_s (signbit x \<and> signbit y) else round_to fmt r))"

definition fsub :: "format \<Rightarrow> fp \<Rightarrow> fp \<Rightarrow> fp" where
  "fsub fmt x y = fadd fmt x (fneg y)"

definition fmul :: "format \<Rightarrow> fp \<Rightarrow> fp \<Rightarrow> fp" where
  "fmul fmt x y =
     (if is_nan x \<or> is_nan y then NaN
      else if is_inf x \<or> is_inf y
        then (if is_zero x \<or> is_zero y then NaN else inf_s (signbit x \<noteq> signbit y))
      else (let r = valof x * valof y
            in if r = 0 then zero_s (signbit x \<noteq> signbit y) else round_to fmt r))"

definition fdiv :: "format \<Rightarrow> fp \<Rightarrow> fp \<Rightarrow> fp" where
  "fdiv fmt x y =
     (if is_nan x \<or> is_nan y then NaN
      else if is_inf x then (if is_inf y then NaN else inf_s (signbit x \<noteq> signbit y))
      else if is_inf y then zero_s (signbit x \<noteq> signbit y)
      else if is_zero y
        then (if is_zero x then NaN else inf_s (signbit x \<noteq> signbit y))
      else (let r = valof x / valof y
            in if r = 0 then zero_s (signbit x \<noteq> signbit y) else round_to fmt r))"

text \<open>The comparisons of C++: every comparison with NaN is false, and the zeros are equal.\<close>

definition flt :: "fp \<Rightarrow> fp \<Rightarrow> bool" where
  "flt x y =
     (if is_nan x \<or> is_nan y then False
      else if x = PInf \<or> y = NInf then False
      else if x = NInf \<or> y = PInf then True
      else valof x < valof y)"

definition fgt :: "fp \<Rightarrow> fp \<Rightarrow> bool" where
  "fgt x y = flt y x"

definition feq :: "fp \<Rightarrow> fp \<Rightarrow> bool" where
  "feq x y =
     (if is_nan x \<or> is_nan y then False
      else if is_finite x \<and> is_finite y then valof x = valof y
      else x = y)"

text \<open>
  Conversions: a \<open>double\<close> stored into a \<open>float\<close> is rounded to binary32; a \<open>float\<close>
  read in a \<open>double\<close> expression keeps its value; a decimal literal is the nearest double;
  an \<open>int\<close> operand of a \<open>float\<close> operation is converted to \<open>float\<close>.
\<close>

definition to_float :: "fp \<Rightarrow> fp" where
  "to_float x = (case x of Fin r \<Rightarrow> round_to binary32 r | NegZero \<Rightarrow> NegZero
     | PInf \<Rightarrow> PInf | NInf \<Rightarrow> NInf | NaN \<Rightarrow> NaN)"

definition double_lit :: "rat \<Rightarrow> fp" where
  "double_lit r = round_to binary64 r"

definition float_of_int :: "int \<Rightarrow> fp" where
  "float_of_int i = round_to binary32 (of_int i)"

text \<open>\<open>approx x c tol\<close>: the value \<open>x\<close> is finite and within \<open>tol\<close> of \<open>c\<close>.\<close>

definition approx :: "fp \<Rightarrow> rat \<Rightarrow> rat \<Rightarrow> bool" where
  "approx x c tol = (is_finite x \<and> \<bar>valof x - c\<bar> \<le> tol)"

section \<open>The state of the driver\<close>

text \<open>
  One record holds the members of the \<open>DFRobotESPpH\<close> object (the pin and ADC settings
  of \<open>init\<close>, \<open>_temperature\<close>, \<open>_phValue\<close>, \<open>_acidVoltage\<close>, \<open>_neutralVoltage\<close>,
  \<open>_voltage\<close>), the two function-static flags of \<open>phCalibration\<close>, the content of the
  \<open>pHVals\<close> namespace of the Preferences store, and what has been written to \<open>Serial\<close>.
\<close>

datatype serial_out = Print string | Println string | PrintFloat fp | PrintlnFloat fp

type_synonym byte = "8 word"

record state =
  PH_PIN :: int
  ESPADC :: fp
  ESPVOLTAGE :: int
  temperature :: fp
  phValue :: fp
  acidVoltage :: fp
  neutralVoltage :: fp
  voltage :: fp
  phCalibrationFinish :: bool
  enterCalibrationFlag :: bool
  preferences :: "string \<rightharpoonup> fp"
  serial :: "serial_out list"

text \<open>
  The header of the library is not part of the sources at hand: the four band limits
  \<open>PH_8_VOLTAGE\<close>, \<open>PH_6_VOLTAGE\<close>, \<open>PH_5_VOLTAGE\<close> and \<open>PH_3_VOLTAGE\<close> it defines
  are parameters of the model.
\<close>

record bands =
  PH_8_VOLTAGE :: fp
  PH_6_VOLTAGE :: fp
  PH_5_VOLTAGE :: fp
  PH_3_VOLTAGE :: fp

text \<open>
  The Preferences store: \<open>getFloat\<close> returns the stored value or the default given,
  \<open>putFloat\<close> stores a value. \<open>preferences.begin\<close> and \<open>preferences.end\<close> bracket the
  accesses and leave the stored values as they are.
\<close>

definition getFloat :: "string \<Rightarrow> fp \<Rightarrow> state \<Rightarrow> fp" where
  "getFloat key dflt s = (case preferences s key of None \<Rightarrow> dflt | Some v \<Rightarrow> v)"

definition putFloat :: "string \<Rightarrow> fp \<Rightarrow> state \<Rightarrow> state" where
  "putFloat key v s = s\<lparr>preferences := (preferences s)(key \<mapsto> v)\<rparr>"

definition Serial_out :: "serial_out list \<Rightarrow> state \<Rightarrow> state" where
  "Serial_out items s = s\<lparr>serial := serial s @ items\<rparr>"

section \<open>The operations\<close>

definition init :: "int \<Rightarrow> fp \<Rightarrow> int \<Rightarrow> state \<Rightarrow> state" where
  "init PH_PIN_in ESPADC_in ESPVOLTAGE_in s =
     s\<lparr>PH_PIN := PH_PIN_in, ESPADC := ESPADC_in, ESPVOLTAGE := ESPVOLTAGE_in\<rparr>"

text \<open>
  The literals \<open>1348.68\<close> and \<open>1844.17\<close> are doubles; stored in a \<open>float\<close> member
  they are rounded to binary32.
\<close>

definition float_1348_68 :: fp where
  "float_1348_68 = to_float (double_lit (134868 / 100))"

definition float_1844_17 :: fp where
  "float_1844_17 = to_float (double_lit (184417 / 100))"

text \<open>The constructor assigns five members and leaves the rest of the memory as it is.\<close>

definition constructor :: "state \<Rightarrow> state" where
  "constructor s =
     s\<lparr>temperature := to_float (Fin 25),
       phValue := to_float (Fin 7),
       acidVoltage := float_1844_17,
       neutralVoltage := float_1348_68,
       voltage := float_1348_68\<rparr>"

definition get_neutralVoltage :: "state \<Rightarrow> fp" where
  "get_neutralVoltage s = neutralVoltage s"

definition begin_sensor :: "state \<Rightarrow> state" where
  "begin_sensor s0 =
     (let s1 = s0\<lparr>neutralVoltage := getFloat ''voltage7'' (float_of_int 0) s0\<rparr>;
          s2 = (if feq (neutralVoltage s1) (float_of_int 0)
                then (let t = s1\<lparr>neutralVoltage := float_1348_68\<rparr>
                      in putFloat ''voltage7'' (neutralVoltage t) t)
                else s1);
          s3 = s2\<lparr>acidVoltage := getFloat ''voltage4'' (float_of_int 0) s2\<rparr>
      in if feq (acidVoltage s3) (float_of_int 0)
         then (let t = s3\<lparr>acidVoltage := float_1844_17\<rparr>
               in putFloat ''voltage4'' (acidVoltage t) t)
         else s3)"

text \<open>
  \<open>readPH\<close>: slope and intercept are computed in \<open>double\<close> and stored in \<open>float\<close>
  locals; the result is stored in \<open>_phValue\<close> and returned. The temperature is not used.
\<close>

definition readPH :: "fp \<Rightarrow> fp \<Rightarrow> state \<Rightarrow> fp \<times> state" where
  "readPH v temp s =
     (let slope = to_float
            (fdiv binary64 (fsub binary64 (Fin 7) (Fin 4))
               (fsub binary64
                  (fdiv binary64 (fsub binary64 (neutralVoltage s) (Fin 1500)) (Fin 3))
                  (fdiv binary64 (fsub binary64 (acidVoltage s) (Fin 1500)) (Fin 3))));
          intercept = to_float
            (fsub binary64 (Fin 7)
               (fdiv binary64
                  (fmul binary64 slope (fsub binary64 (neutralVoltage s) (Fin 1500)))
                  (Fin 3)));
          ph = to_float
            (fadd binary64
               (fdiv binary64 (fmul binary64 slope (fsub binary64 v (Fin 1500))) (Fin 3))
               intercept)
      in (ph, s\<lparr>phValue := ph\<rparr>))"

text \<open>
  \<open>getPH\<close>: \<open>raw\<close> is what \<open>analogRead(PH_PIN)\<close> returns. The voltage is computed in
  \<open>float\<close> arithmetic, printed, and kept as the live voltage.
\<close>

definition getPH :: "int \<Rightarrow> fp \<Rightarrow> state \<Rightarrow> fp \<times> state" where
  "getPH raw temp_in s =
     (let v = fmul binary32 (fdiv binary32 (float_of_int raw) (ESPADC s))
                (float_of_int (ESPVOLTAGE s));
          s1 = Serial_out [PrintlnFloat v] s;
          s2 = s1\<lparr>voltage := v, temperature := temp_in\<rparr>
      in readPH v temp_in s2)"

subsection \<open>The command parser\<close>

text \<open>
  \<open>strstr hay needle\<close> returns the rest of \<open>hay\<close> from the first occurrence of
  \<open>needle\<close>, or \<open>None\<close> for the null pointer.
\<close>

fun starts_with :: "string \<Rightarrow> string \<Rightarrow> bool" where
  "starts_with hay [] = True"
| "starts_with [] (c # cs) = False"
| "starts_with (h # hs) (c # cs) = (h = c \<and> starts_with hs cs)"

fun strstr :: "string \<Rightarrow> string \<Rightarrow> string option" where
  "strstr [] needle = (if needle = [] then Some [] else None)"
| "strstr (h # hs) needle =
     (if starts_with (h # hs) needle then Some (h # hs) else strstr hs needle)"

definition cmdParse :: "string \<Rightarrow> byte" where
  "cmdParse cmd =
     (if strstr cmd ''ENTERPH'' \<noteq> None then 1
      else if strstr cmd ''EXITPH'' \<noteq> None then 3
      else if strstr cmd ''CALPH'' \<noteq> None then 2
      else 0)"

subsection \<open>The calibration state machine\<close>

definition phCalibration :: "bands \<Rightarrow> byte \<Rightarrow> state \<Rightarrow> state" where
  "phCalibration K mode s =
     (if mode = 0 then
        (if enterCalibrationFlag s
         then Serial_out [Println ''>>>Command Error<<<''] s
         else s)
      else if mode = 1 then
        (let s1 = s\<lparr>enterCalibrationFlag := True, phCalibrationFinish := False\<rparr>
         in Serial_out
              [Println '''',
               Println ''>>>Enter PH Calibration Mode<<<'',
               Println ''>>>Please put the probe into the 4.0 or 7.0 standard buffer solution<<<'',
               Println '''']
              s1)
      else if mode = 2 then
        (if enterCalibrationFlag s then
           (if fgt (voltage s) (PH_8_VOLTAGE K) \<and> flt (voltage s) (PH_6_VOLTAGE K) then
              (let s1 = Serial_out [Println '''', Print ''>>>Buffer Solution:7.0''] s;
                   s2 = s1\<lparr>neutralVoltage := voltage s1\<rparr>;
                   s3 = Serial_out
                          [Println '',Send EXITPH to Save and Exit<<<'', Println ''''] s2
               in s3\<lparr>phCalibrationFinish := True\<rparr>)
            else if fgt (voltage s) (PH_5_VOLTAGE K) \<and> flt (voltage s) (PH_3_VOLTAGE K) then
              (let s1 = Serial_out [Println '''', Print ''>>>Buffer Solution:4.0''] s;
                   s2 = s1\<lparr>acidVoltage := voltage s1\<rparr>;
                   s3 = Serial_out
                          [Println '',Send EXITPH to Save and Exit<<<'', Println ''''] s2
               in s3\<lparr>phCalibrationFinish := True\<rparr>)
            else
              (let s1 = Serial_out
                          [Println '''', Print ''>>>Buffer Solution Error Try Again<<<'',
                           Println ''''] s
               in s1\<lparr>phCalibrationFinish := False\<rparr>))
         else s)
      else if mode = 3 then
        (if enterCalibrationFlag s then
           (let s1 = Serial_out [Println ''''] s;
                s2 = (if phCalibrationFinish s1 then
                        (let t =
                           (if fgt (voltage s1) (PH_8_VOLTAGE K)
                               \<and> flt (voltage s1) (PH_5_VOLTAGE K) then
                              Serial_out
                                [Print ''PH 7 Calibration value SAVE THIS FOR LATER: '',
                                 PrintFloat (neutralVoltage s1)]
                                (putFloat ''voltage7'' (neutralVoltage s1) s1)
                            else if fgt (voltage s1) (PH_5_VOLTAGE K)
                               \<and> flt (voltage s1) (PH_3_VOLTAGE K) then
                              Serial_out
                                [Print ''PH 4 Calibration value SAVE THIS FOR LATER: '',
                                 PrintFloat (acidVoltage s1)]
                                (putFloat ''voltage4'' (acidVoltage s1) s1)
                            else s1)
                         in Serial_out [Print ''>>>Calibration Successful''] t)
                      else Serial_out [Print ''>>>Calibration Failed''] s1);
                s3 = Serial_out [Println '',Exit PH Calibration Mode<<<'', Println ''''] s2
            in s3\<lparr>phCalibrationFinish := False, enterCalibrationFlag := False\<rparr>)
         else s)
      else s)"

text \<open>
  \<open>calibration(char *cmd)\<close>: the command is put in upper case (\<open>strupr\<close>, on the
  letters \<open>a\<close> to \<open>z\<close>), parsed, and given to the state machine.
\<close>

definition toupper :: "char \<Rightarrow> char" where
  "toupper c =
     (if 97 \<le> (of_char c :: nat) \<and> (of_char c :: nat) \<le> 122
      then char_of ((of_char c :: nat) - 32) else c)"

definition strupr :: "string \<Rightarrow> string" where
  "strupr cmd = map toupper cmd"

definition calibration :: "bands \<Rightarrow> string \<Rightarrow> state \<Rightarrow> state" where
  "calibration K cmd s = phCalibration K (cmdParse (strupr cmd)) s"

text \<open>
  \<open>manualCalibration(voltage7, voltage4)\<close>: the body stores the two members and does
  not read its parameters.
\<close>

definition manualCalibration :: "fp \<Rightarrow> fp \<Rightarrow> state \<Rightarrow> state" where
  "manualCalibration voltage7 voltage4 s =
     (let s1 = putFloat ''voltage7'' (neutralVoltage s) s;
          s2 = Serial_out [Println ''PH 7 Calibration value saved''] s1;
          s3 = putFloat ''voltage4'' (acidVoltage s2) s2
      in Serial_out [Println ''PH 4 Calibration value saved''] s3)"

text \<open>
  What reaches the driver between power-up and the end of a session: commands given to
  \<open>phCalibration\<close> and pH queries (\<open>getPH\<close>), which set the live voltage.
\<close>

datatype event = Command byte | Query int fp

fun step :: "bands \<Rightarrow> event \<Rightarrow> state \<Rightarrow> state" where
  "step K (Command mode) s = phCalibration K mode s"
| "step K (Query raw temp_in) s = snd (getPH raw temp_in s)"

fun run :: "bands \<Rightarrow> event list \<Rightarrow> state \<Rightarrow> state" where
  "run K [] s = s"
| "run K (e # es) s = run K es (step K e s)"

subsection \<open>The bands of the state machine\<close>

text \<open>
  The conditions of \<open>phCalibration\<close> on the live voltage: the two bands in which a
  \<open>CALPH\<close> accepts a sample, and the band in which \<open>EXITPH\<close> stores the neutral
  constant, whose upper limit is \<open>PH_5_VOLTAGE\<close>. \<open>EXITPH\<close> stores the acid constant
  in the band in which \<open>CALPH\<close> accepts it.
\<close>

definition neutral_band :: "bands \<Rightarrow> fp \<Rightarrow> bool" where
  "neutral_band K v = (fgt v (PH_8_VOLTAGE K) \<and> flt v (PH_6_VOLTAGE K))"

definition acid_band :: "bands \<Rightarrow> fp \<Rightarrow> bool" where
  "acid_band K v = (fgt v (PH_5_VOLTAGE K) \<and> flt v (PH_3_VOLTAGE K))"

definition neutral_commit_band :: "bands \<Rightarrow> fp \<Rightarrow> bool" where
  "neutral_commit_band K v = (fgt v (PH_8_VOLTAGE K) \<and> flt v (PH_5_VOLTAGE K))"

subsection \<open>Concrete runs\<close>

text \<open>
  For concrete runs: band limits with the neutral band around 1300 mV and the acid band
  around 1830 mV, and the state after power-up, where the statics are zero, the store is
  empty, nothing has been printed, the constructor has run and \<open>init\<close> has set a 12-bit
  ADC on 3300 mV.
\<close>

definition example_bands :: bands where
  "example_bands = \<lparr>PH_8_VOLTAGE = Fin 1122, PH_6_VOLTAGE = Fin 1478,
     PH_5_VOLTAGE = Fin 1654, PH_3_VOLTAGE = Fin 2010\<rparr>"

definition blank :: state where
  "blank = \<lparr>PH_PIN = 0, ESPADC = Fin 0, ESPVOLTAGE = 0, temperature = Fin 0,
     phValue = Fin 0, acidVoltage = Fin 0, neutralVoltage = Fin 0, voltage = Fin 0,
     phCalibrationFinish = False, enterCalibrationFlag = False,
     preferences = Map.empty, serial = []\<rparr>"

definition power_on :: state where
  "power_on = init 35 (Fin 4096) 3300 (constructor blank)"


definition neutral_reading :: state where
  "neutral_reading = run example_bands [Command 1, Query 1800 (Fin 25)] power_on"

definition acid_reading :: state where
  "acid_reading = run example_bands [Command 1, Query 2234 (Fin 25)] power_on"

definition stray_reading :: state where
  "stray_reading = run example_bands [Command 1, Query 3600 (Fin 25)] power_on"

definition accepted_then_moved :: state where
  "accepted_then_moved =
     run example_bands [Command 1, Query 1800 (Fin 25), Command 2, Query 3600 (Fin 25)] power_on"


text \<open>
  States whose store already holds values, and states after \<open>begin\<close> on such a store.
\<close>

definition stored_zero :: state where
  "stored_zero =
     power_on\<lparr>preferences := [''voltage7'' \<mapsto> Fin 0, ''voltage4'' \<mapsto> Fin 1800]\<rparr>"

definition stored_neutral :: state where
  "stored_neutral = power_on\<lparr>preferences := [''voltage7'' \<mapsto> Fin 1400]\<rparr>"


definition degenerate :: state where
  "degenerate =
     begin_sensor
       (power_on\<lparr>preferences := [''voltage7'' \<mapsto> Fin 1400, ''voltage4'' \<mapsto> Fin 1400]\<rparr>)"

subsection \<open>What a run may leave in the store\<close>


section \<open>Auxiliary facts\<close>

lemma starts_with_prefix: "starts_with h n \<longleftrightarrow> prefix n h"
  by (induction h n rule: starts_with.induct) auto

lemma strstr_sublist: "strstr h n \<noteq> None \<longleftrightarrow> sublist n h"
  by (induction h) (auto simp: starts_with_prefix sublist_Cons_right)

lemma getPH_frame:
  "neutralVoltage (snd (getPH raw t s)) = neutralVoltage s"
  "acidVoltage (snd (getPH raw t s)) = acidVoltage s"
  "enterCalibrationFlag (snd (getPH raw t s)) = enterCalibrationFlag s"
  "phCalibrationFinish (snd (getPH raw t s)) = phCalibrationFinish s"
  "preferences (snd (getPH raw t s)) = preferences s"
  "ESPADC (snd (getPH raw t s)) = ESPADC s"
  "ESPVOLTAGE (snd (getPH raw t s)) = ESPVOLTAGE s"
  by (simp_all add: getPH_def readPH_def Let_def Serial_out_def)

lemma getPH_voltage:
  "voltage (snd (getPH raw t s)) =
     fmul binary32 (fdiv binary32 (float_of_int raw) (ESPADC s)) (float_of_int (ESPVOLTAGE s))"
  by (simp add: getPH_def readPH_def Let_def Serial_out_def)

lemma getPH_serial:
  "serial (snd (getPH raw t s)) = serial s @ [PrintlnFloat (voltage (snd (getPH raw t s)))]"
  by (simp add: getPH_def readPH_def Let_def Serial_out_def)

text \<open>The voltages of three ADC readings on a 12-bit ADC at 3300 mV, and the defaults.\<close>

lemma adc_1800:
  "fmul binary32 (fdiv binary32 (float_of_int 1800) (Fin 4096)) (float_of_int 3300)
     = Fin (185625 / 128)"
  by code_simp

lemma adc_2234:
  "fmul binary32 (fdiv binary32 (float_of_int 2234) (Fin 4096)) (float_of_int 3300)
     = Fin (921525 / 512)"
  by code_simp

lemma adc_3600:
  "fmul binary32 (fdiv binary32 (float_of_int 3600) (Fin 4096)) (float_of_int 3300)
     = Fin (185625 / 64)"
  by code_simp

lemma float_1348_68_value: "float_1348_68 = Fin (11048387 / 8192)"
  by code_simp

lemma float_1844_17_value: "float_1844_17 = Fin (15107441 / 8192)"
  by code_simp

lemma power_on_fields:
  "ESPADC power_on = Fin 4096"
  "ESPVOLTAGE power_on = 3300"
  "neutralVoltage power_on = float_1348_68"
  "acidVoltage power_on = float_1844_17"
  "voltage power_on = float_1348_68"
  "phValue power_on = to_float (Fin 7)"
  "\<not> enterCalibrationFlag power_on"
  "\<not> phCalibrationFinish power_on"
  "preferences power_on = Map.empty"
  "serial power_on = []"
  by (simp_all add: power_on_def init_def constructor_def blank_def)

lemmas compare_simps = fgt_def flt_def is_nan_def valof_def

lemmas run_simps = phCalibration_def Serial_out_def putFloat_def Let_def
  getPH_frame getPH_voltage getPH_serial power_on_fields adc_1800 adc_2234 adc_3600
  float_1348_68_value float_1844_17_value example_bands_def compare_simps
  neutral_band_def acid_band_def neutral_commit_band_def

section \<open>The command parser\<close>

text \<open>
  Claim C7. The command parser is total and maps every token to exactly one of the four
  mode indices: a token that contains \<open>ENTERPH\<close> maps to 1 (enter calibration),
  otherwise one that contains \<open>EXITPH\<close> maps to 3 (exit and save), otherwise one that
  contains \<open>CALPH\<close> maps to 2 (take a reading), and any other token maps to 0 (none).
  When a token contains more than one of the substrings, the order of the checks
  decides.
\<close>

theorem cmdParse_by_substring:
  "cmdParse cmd =
     (if sublist ''ENTERPH'' cmd then 1
      else if sublist ''EXITPH'' cmd then 3
      else if sublist ''CALPH'' cmd then 2
      else 0)
   \<and> cmdParse cmd \<in> {0, 1, 2, 3}"
  unfolding cmdParse_def strstr_sublist by simp

lemma cmdParse_examples:
  "cmdParse ''EXITPHENTERPH'' = 1"
  "cmdParse ''XCALPHEXITPH'' = 3"
  "cmdParse ''CALPH'' = 2"
  "cmdParse ''HELLO'' = 0"
  by (simp_all add: cmdParse_def)

lemma strupr_examples:
  "strupr ''enterph'' = ''ENTERPH''"
  "cmdParse (strupr ''send ExitPh now'') = 3"
  by code_simp+

section \<open>Commands outside a session\<close>




section \<open>Taking a reading\<close>

text \<open>
  Claim C6. During an active session a take-reading command (mode 2) classifies the live
  voltage \<open>v\<close>: if \<open>PH_8_VOLTAGE < v < PH_6_VOLTAGE\<close> the neutral constant becomes \<open>v\<close>
  and the sample is marked accepted; else if \<open>PH_5_VOLTAGE < v < PH_3_VOLTAGE\<close> the acid
  constant becomes \<open>v\<close> and the sample is marked accepted; otherwise the buffer-solution
  error is printed, the accepted flag is cleared and neither constant changes. The
  session stays active and the rule does not look at the accepted flag: after a further
  pH query a second take-reading command classifies the new live voltage by the same
  rule, and a sample it accepts replaces the constant of its band.
\<close>

theorem take_reading_classifies:
  assumes "enterCalibrationFlag s"
  shows "(neutral_band K (voltage s) \<longrightarrow>
            phCalibration K 2 s =
              s\<lparr>neutralVoltage := voltage s, phCalibrationFinish := True,
                serial := serial s @ [Println '''', Print ''>>>Buffer Solution:7.0'',
                  Println '',Send EXITPH to Save and Exit<<<'', Println '''']\<rparr>)
       \<and> (\<not> neutral_band K (voltage s) \<and> acid_band K (voltage s) \<longrightarrow>
            phCalibration K 2 s =
              s\<lparr>acidVoltage := voltage s, phCalibrationFinish := True,
                serial := serial s @ [Println '''', Print ''>>>Buffer Solution:4.0'',
                  Println '',Send EXITPH to Save and Exit<<<'', Println '''']\<rparr>)
       \<and> (\<not> neutral_band K (voltage s) \<and> \<not> acid_band K (voltage s) \<longrightarrow>
            phCalibration K 2 s =
              s\<lparr>phCalibrationFinish := False,
                serial := serial s @ [Println '''',
                  Print ''>>>Buffer Solution Error Try Again<<<'', Println '''']\<rparr>)
       \<and> enterCalibrationFlag (phCalibration K 2 s)
       \<and> (let s2 = snd (getPH raw t (phCalibration K 2 s)); s3 = phCalibration K 2 s2
          in enterCalibrationFlag s2
           \<and> (neutral_band K (voltage s2) \<longrightarrow>
                neutralVoltage s3 = voltage s2 \<and> phCalibrationFinish s3)
           \<and> (\<not> neutral_band K (voltage s2) \<and> acid_band K (voltage s2) \<longrightarrow>
                acidVoltage s3 = voltage s2 \<and> phCalibrationFinish s3)
           \<and> (\<not> neutral_band K (voltage s2) \<and> \<not> acid_band K (voltage s2) \<longrightarrow>
                \<not> phCalibrationFinish s3))"
proof -
  have e: "enterCalibrationFlag (phCalibration K 2 s)"
    using assms by (simp add: phCalibration_def Serial_out_def Let_def)
  then have e2: "enterCalibrationFlag (snd (getPH raw t (phCalibration K 2 s)))"
    by (simp add: getPH_frame)
  have first: "(neutral_band K (voltage s) \<longrightarrow>
            phCalibration K 2 s =
              s\<lparr>neutralVoltage := voltage s, phCalibrationFinish := True,
                serial := serial s @ [Println '''', Print ''>>>Buffer Solution:7.0'',
                  Println '',Send EXITPH to Save and Exit<<<'', Println '''']\<rparr>)
       \<and> (\<not> neutral_band K (voltage s) \<and> acid_band K (voltage s) \<longrightarrow>
            phCalibration K 2 s =
              s\<lparr>acidVoltage := voltage s, phCalibrationFinish := True,
                serial := serial s @ [Println '''', Print ''>>>Buffer Solution:4.0'',
                  Println '',Send EXITPH to Save and Exit<<<'', Println '''']\<rparr>)
       \<and> (\<not> neutral_band K (voltage s) \<and> \<not> acid_band K (voltage s) \<longrightarrow>
            phCalibration K 2 s =
              s\<lparr>phCalibrationFinish := False,
                serial := serial s @ [Println '''',
                  Print ''>>>Buffer Solution Error Try Again<<<'', Println '''']\<rparr>)"
    using assms
    by (simp add: phCalibration_def neutral_band_def acid_band_def Serial_out_def Let_def)
  have later: "(let s2 = snd (getPH raw t (phCalibration K 2 s)); s3 = phCalibration K 2 s2
          in enterCalibrationFlag s2
           \<and> (neutral_band K (voltage s2) \<longrightarrow>
                neutralVoltage s3 = voltage s2 \<and> phCalibrationFinish s3)
           \<and> (\<not> neutral_band K (voltage s2) \<and> acid_band K (voltage s2) \<longrightarrow>
                acidVoltage s3 = voltage s2 \<and> phCalibrationFinish s3)
           \<and> (\<not> neutral_band K (voltage s2) \<and> \<not> acid_band K (voltage s2) \<longrightarrow>
                \<not> phCalibrationFinish s3))"
    using e2
    by (simp add: phCalibration_def [of K 2 "snd (getPH raw t (phCalibration K 2 s))"]
        neutral_band_def acid_band_def Serial_out_def Let_def)
  from first e later show ?thesis by blast
qed

theorem take_reading_classifies_witness:
  "enterCalibrationFlag neutral_reading
   \<and> neutral_band example_bands (voltage neutral_reading)
   \<and> neutralVoltage (phCalibration example_bands 2 neutral_reading) = Fin (185625 / 128)
   \<and> phCalibrationFinish (phCalibration example_bands 2 neutral_reading)
   \<and> enterCalibrationFlag acid_reading
   \<and> \<not> neutral_band example_bands (voltage acid_reading)
   \<and> acid_band example_bands (voltage acid_reading)
   \<and> acidVoltage (phCalibration example_bands 2 acid_reading) = Fin (921525 / 512)
   \<and> phCalibrationFinish (phCalibration example_bands 2 acid_reading)
   \<and> enterCalibrationFlag stray_reading
   \<and> \<not> neutral_band example_bands (voltage stray_reading)
   \<and> \<not> acid_band example_bands (voltage stray_reading)
   \<and> \<not> phCalibrationFinish (phCalibration example_bands 2 stray_reading)"
proof -
  have n: "enterCalibrationFlag neutral_reading"
    "neutral_band example_bands (voltage neutral_reading)"
    "voltage neutral_reading = Fin (185625 / 128)"
    by (simp_all add: neutral_reading_def run_simps)
  have a: "enterCalibrationFlag acid_reading"
    "\<not> neutral_band example_bands (voltage acid_reading)"
    "acid_band example_bands (voltage acid_reading)"
    "voltage acid_reading = Fin (921525 / 512)"
    by (simp_all add: acid_reading_def run_simps)
  have o: "enterCalibrationFlag stray_reading"
    "\<not> neutral_band example_bands (voltage stray_reading)"
    "\<not> acid_band example_bands (voltage stray_reading)"
    by (simp_all add: stray_reading_def run_simps)
  show ?thesis
    using take_reading_classifies [OF n(1), of example_bands 0 "Fin 25", THEN conjunct1]
      take_reading_classifies [OF a(1), of example_bands 0 "Fin 25", THEN conjunct2, THEN conjunct1]
      take_reading_classifies [OF o(1), of example_bands 0 "Fin 25", THEN conjunct2, THEN conjunct2,
        THEN conjunct1]
      n a o
    by simp
qed

text \<open>
  Claim C10. One take-reading command changes at most one of the two constants:
  accepting a sample in the neutral band leaves the acid constant as it is, accepting
  one in the acid band leaves the neutral constant as it is, and a command that accepts
  nothing leaves both. No take-reading command writes to the store.
\<close>

theorem take_reading_frame:
  "preferences (phCalibration K 2 s) = preferences s
   \<and> (neutralVoltage (phCalibration K 2 s) = neutralVoltage s
        \<or> acidVoltage (phCalibration K 2 s) = acidVoltage s)
   \<and> (enterCalibrationFlag s \<and> neutral_band K (voltage s) \<longrightarrow>
        acidVoltage (phCalibration K 2 s) = acidVoltage s)
   \<and> (enterCalibrationFlag s \<and> \<not> neutral_band K (voltage s) \<and> acid_band K (voltage s) \<longrightarrow>
        neutralVoltage (phCalibration K 2 s) = neutralVoltage s)
   \<and> (\<not> (enterCalibrationFlag s \<and> (neutral_band K (voltage s) \<or> acid_band K (voltage s)))
        \<longrightarrow> neutralVoltage (phCalibration K 2 s) = neutralVoltage s
          \<and> acidVoltage (phCalibration K 2 s) = acidVoltage s)"
  by (simp add: phCalibration_def neutral_band_def acid_band_def Serial_out_def Let_def)

theorem take_reading_frame_witness:
  "enterCalibrationFlag neutral_reading
   \<and> neutral_band example_bands (voltage neutral_reading)
   \<and> acidVoltage (phCalibration example_bands 2 neutral_reading) = acidVoltage neutral_reading
   \<and> enterCalibrationFlag acid_reading
   \<and> \<not> neutral_band example_bands (voltage acid_reading)
   \<and> acid_band example_bands (voltage acid_reading)
   \<and> neutralVoltage (phCalibration example_bands 2 acid_reading) = neutralVoltage acid_reading
   \<and> \<not> (enterCalibrationFlag stray_reading
         \<and> (neutral_band example_bands (voltage stray_reading)
            \<or> acid_band example_bands (voltage stray_reading)))
   \<and> neutralVoltage (phCalibration example_bands 2 stray_reading) = neutralVoltage stray_reading
   \<and> acidVoltage (phCalibration example_bands 2 stray_reading) = acidVoltage stray_reading
   \<and> preferences (phCalibration example_bands 2 neutral_reading) = preferences neutral_reading"
proof -
  have n: "enterCalibrationFlag neutral_reading"
    "neutral_band example_bands (voltage neutral_reading)"
    by (simp_all add: neutral_reading_def run_simps)
  have a: "enterCalibrationFlag acid_reading"
    "\<not> neutral_band example_bands (voltage acid_reading)"
    "acid_band example_bands (voltage acid_reading)"
    by (simp_all add: acid_reading_def run_simps)
  have o: "\<not> neutral_band example_bands (voltage stray_reading)"
    "\<not> acid_band example_bands (voltage stray_reading)"
    by (simp_all add: stray_reading_def run_simps)
  show ?thesis
    using take_reading_frame [of example_bands neutral_reading]
      take_reading_frame [of example_bands acid_reading]
      take_reading_frame [of example_bands stray_reading]
      n a o
    by simp
qed

section \<open>Leaving a session\<close>

text \<open>
  What an exit-and-save command (mode 3) does during an active session, case by case.
  With an accepted sample the store is written when the live voltage is in a commit
  band, and \<open>>>>Calibration Successful\<close> is printed whether or not it was written.
\<close>

lemma exit_cases:
  assumes "enterCalibrationFlag s"
  shows "(phCalibrationFinish s \<and> neutral_commit_band K (voltage s) \<longrightarrow>
            phCalibration K 3 s =
              s\<lparr>phCalibrationFinish := False, enterCalibrationFlag := False,
                preferences := (preferences s)(''voltage7'' \<mapsto> neutralVoltage s),
                serial := serial s @ [Println '''',
                  Print ''PH 7 Calibration value SAVE THIS FOR LATER: '',
                  PrintFloat (neutralVoltage s), Print ''>>>Calibration Successful'',
                  Println '',Exit PH Calibration Mode<<<'', Println '''']\<rparr>)
       \<and> (phCalibrationFinish s \<and> \<not> neutral_commit_band K (voltage s)
            \<and> acid_band K (voltage s) \<longrightarrow>
            phCalibration K 3 s =
              s\<lparr>phCalibrationFinish := False, enterCalibrationFlag := False,
                preferences := (preferences s)(''voltage4'' \<mapsto> acidVoltage s),
                serial := serial s @ [Println '''',
                  Print ''PH 4 Calibration value SAVE THIS FOR LATER: '',
                  PrintFloat (acidVoltage s), Print ''>>>Calibration Successful'',
                  Println '',Exit PH Calibration Mode<<<'', Println '''']\<rparr>)
       \<and> (phCalibrationFinish s \<and> \<not> neutral_commit_band K (voltage s)
            \<and> \<not> acid_band K (voltage s) \<longrightarrow>
            phCalibration K 3 s =
              s\<lparr>phCalibrationFinish := False, enterCalibrationFlag := False,
                serial := serial s @ [Println '''', Print ''>>>Calibration Successful'',
                  Println '',Exit PH Calibration Mode<<<'', Println '''']\<rparr>)
       \<and> (\<not> phCalibrationFinish s \<longrightarrow>
            phCalibration K 3 s =
              s\<lparr>phCalibrationFinish := False, enterCalibrationFlag := False,
                serial := serial s @ [Println '''', Print ''>>>Calibration Failed'',
                  Println '',Exit PH Calibration Mode<<<'', Println '''']\<rparr>)"
  using assms
  by (simp add: phCalibration_def neutral_commit_band_def acid_band_def Serial_out_def
      putFloat_def Let_def)

text \<open>
  Claim C1 says that an exit with an accepted sample whose live voltage is outside both
  commit bands reports a failed calibration and leaves the store alone. The code leaves
  the store alone but prints \<open>>>>Calibration Successful\<close>: after power-up, enter the
  session, read 1450.2 mV (ADC 1800), accept it with a take-reading command, read
  2900.4 mV (ADC 3600), and exit.
\<close>

theorem exit_reports_success_without_storing:
  "enterCalibrationFlag accepted_then_moved
   \<and> phCalibrationFinish accepted_then_moved
   \<and> neutralVoltage accepted_then_moved = Fin (185625 / 128)
   \<and> voltage accepted_then_moved = Fin (185625 / 64)
   \<and> \<not> neutral_commit_band example_bands (voltage accepted_then_moved)
   \<and> \<not> acid_band example_bands (voltage accepted_then_moved)
   \<and> serial (phCalibration example_bands 3 accepted_then_moved)
       = serial accepted_then_moved @ [Println '''', Print ''>>>Calibration Successful'',
           Println '',Exit PH Calibration Mode<<<'', Println '''']
   \<and> preferences (phCalibration example_bands 3 accepted_then_moved) = Map.empty"
  by (simp add: accepted_then_moved_def run_simps)

section \<open>Manual calibration\<close>

text \<open>
  Whatever its arguments, \<open>manualCalibration\<close> stores the constants the object holds.
\<close>

lemma manualCalibration_stores_members:
  "preferences (manualCalibration v7 v4 s) =
     (preferences s)(''voltage7'' \<mapsto> neutralVoltage s, ''voltage4'' \<mapsto> acidVoltage s)"
  by (simp add: manualCalibration_def putFloat_def Serial_out_def Let_def)

text \<open>
  Claim C3 says that \<open>manualCalibration(v7, v4)\<close> stores \<open>v7\<close> under \<open>voltage7\<close> and
  \<open>v4\<close> under \<open>voltage4\<close>. After power-up, \<open>manualCalibration(1500, 2000)\<close> stores the
  defaults 1348.68 and 1844.17 (as floats) instead, and reading the keys back returns
  them.
\<close>

theorem manualCalibration_ignores_arguments:
  "getFloat ''voltage7'' (Fin 0) (manualCalibration (Fin 1500) (Fin 2000) power_on)
     = Fin (11048387 / 8192)
   \<and> getFloat ''voltage4'' (Fin 0) (manualCalibration (Fin 1500) (Fin 2000) power_on)
     = Fin (15107441 / 8192)"
  by (simp add: manualCalibration_def getFloat_def run_simps)

section \<open>Start-up\<close>

lemma float_of_int_0: "float_of_int 0 = Fin 0"
  by (simp add: float_of_int_def round_to_def)

lemma feq_zero: "feq x (Fin 0) \<longleftrightarrow> x = Fin 0 \<or> x = NegZero"
  by (cases x) (simp_all add: feq_def is_nan_def is_finite_def valof_def)

lemma begin_neutral:
  "neutralVoltage (begin_sensor s) =
     (if feq (getFloat ''voltage7'' (Fin 0) s) (Fin 0) then float_1348_68
      else getFloat ''voltage7'' (Fin 0) s)"
  by (simp add: begin_sensor_def Let_def float_of_int_0 putFloat_def getFloat_def)

lemma begin_acid:
  "acidVoltage (begin_sensor s) =
     (if feq (getFloat ''voltage4'' (Fin 0) s) (Fin 0) then float_1844_17
      else getFloat ''voltage4'' (Fin 0) s)"
  by (simp add: begin_sensor_def Let_def float_of_int_0 putFloat_def getFloat_def)

lemma begin_preferences:
  "preferences (begin_sensor s) =
     (let p7 = (if feq (getFloat ''voltage7'' (Fin 0) s) (Fin 0)
                then (preferences s)(''voltage7'' \<mapsto> float_1348_68) else preferences s)
      in if feq (getFloat ''voltage4'' (Fin 0) s) (Fin 0)
         then p7(''voltage4'' \<mapsto> float_1844_17) else p7)"
  by (simp add: begin_sensor_def Let_def float_of_int_0 putFloat_def getFloat_def)

lemma begin_frame:
  "PH_PIN (begin_sensor s) = PH_PIN s"
  "ESPADC (begin_sensor s) = ESPADC s"
  "ESPVOLTAGE (begin_sensor s) = ESPVOLTAGE s"
  "temperature (begin_sensor s) = temperature s"
  "phValue (begin_sensor s) = phValue s"
  "voltage (begin_sensor s) = voltage s"
  "phCalibrationFinish (begin_sensor s) = phCalibrationFinish s"
  "enterCalibrationFlag (begin_sensor s) = enterCalibrationFlag s"
  "serial (begin_sensor s) = serial s"
  "state.more (begin_sensor s) = state.more s"
  by (simp_all add: begin_sensor_def Let_def putFloat_def)

lemma begin_zero_is_absent7:
  "begin_sensor (s\<lparr>preferences := (preferences s)(''voltage7'' \<mapsto> Fin 0)\<rparr>)
     = begin_sensor (s\<lparr>preferences := (preferences s)(''voltage7'' := None)\<rparr>)"
  by (rule state.equality)
     (simp_all add: begin_frame begin_neutral begin_acid begin_preferences getFloat_def
        feq_zero fun_eq_iff)

lemma begin_zero_is_absent4:
  "begin_sensor (s\<lparr>preferences := (preferences s)(''voltage4'' \<mapsto> Fin 0)\<rparr>)
     = begin_sensor (s\<lparr>preferences := (preferences s)(''voltage4'' := None)\<rparr>)"
  by (rule state.equality)
     (simp_all add: begin_frame begin_neutral begin_acid begin_preferences getFloat_def
        feq_zero fun_eq_iff)

text \<open>
  Claim C9. \<open>begin\<close> uses the value 0 as the sign of absence: whenever the store
  returns 0 for \<open>voltage7\<close> (for \<open>voltage4\<close>), \<open>begin\<close> sets the constant in memory to
  the default 1348.68 (1844.17) and writes that default to the store; any other value
  is loaded and the key is left alone. So a stored 0 cannot be told from an empty
  store: \<open>begin\<close> yields the same state for both, with the default in place of the 0.
\<close>

theorem begin_zero_sentinel:
  "(feq (getFloat ''voltage7'' (float_of_int 0) s) (float_of_int 0) \<longrightarrow>
      neutralVoltage (begin_sensor s) = float_1348_68
      \<and> preferences (begin_sensor s) ''voltage7'' = Some float_1348_68)
   \<and> (feq (getFloat ''voltage4'' (float_of_int 0) s) (float_of_int 0) \<longrightarrow>
      acidVoltage (begin_sensor s) = float_1844_17
      \<and> preferences (begin_sensor s) ''voltage4'' = Some float_1844_17)
   \<and> (\<not> feq (getFloat ''voltage7'' (float_of_int 0) s) (float_of_int 0) \<longrightarrow>
      neutralVoltage (begin_sensor s) = getFloat ''voltage7'' (float_of_int 0) s
      \<and> preferences (begin_sensor s) ''voltage7'' = preferences s ''voltage7'')
   \<and> (\<not> feq (getFloat ''voltage4'' (float_of_int 0) s) (float_of_int 0) \<longrightarrow>
      acidVoltage (begin_sensor s) = getFloat ''voltage4'' (float_of_int 0) s
      \<and> preferences (begin_sensor s) ''voltage4'' = preferences s ''voltage4'')
   \<and> begin_sensor (s\<lparr>preferences := (preferences s)(''voltage7'' \<mapsto> Fin 0)\<rparr>)
       = begin_sensor (s\<lparr>preferences := (preferences s)(''voltage7'' := None)\<rparr>)
   \<and> begin_sensor (s\<lparr>preferences := (preferences s)(''voltage4'' \<mapsto> Fin 0)\<rparr>)
       = begin_sensor (s\<lparr>preferences := (preferences s)(''voltage4'' := None)\<rparr>)"
proof -
  have "preferences (begin_sensor s) ''voltage7'' =
      (if feq (getFloat ''voltage7'' (Fin 0) s) (Fin 0) then Some float_1348_68
       else preferences s ''voltage7'')"
    by (simp add: begin_preferences Let_def)
  moreover have "preferences (begin_sensor s) ''voltage4'' =
      (if feq (getFloat ''voltage4'' (Fin 0) s) (Fin 0) then Some float_1844_17
       else preferences s ''voltage4'')"
    by (simp add: begin_preferences Let_def)
  ultimately show ?thesis
    using begin_zero_is_absent7 [of s] begin_zero_is_absent4 [of s]
    by (simp add: float_of_int_0 begin_neutral begin_acid)
qed

theorem begin_zero_sentinel_witness:
  "feq (getFloat ''voltage7'' (float_of_int 0) stored_zero) (float_of_int 0)
   \<and> neutralVoltage (begin_sensor stored_zero) = Fin (11048387 / 8192)
   \<and> preferences (begin_sensor stored_zero) ''voltage7'' = Some (Fin (11048387 / 8192))
   \<and> \<not> feq (getFloat ''voltage4'' (float_of_int 0) stored_zero) (float_of_int 0)
   \<and> acidVoltage (begin_sensor stored_zero) = Fin 1800
   \<and> preferences (begin_sensor stored_zero) ''voltage4'' = Some (Fin 1800)
   \<and> \<not> feq (getFloat ''voltage7'' (float_of_int 0) stored_neutral) (float_of_int 0)
   \<and> neutralVoltage (begin_sensor stored_neutral) = Fin 1400
   \<and> preferences (begin_sensor stored_neutral) ''voltage7'' = Some (Fin 1400)
   \<and> feq (getFloat ''voltage4'' (float_of_int 0) stored_neutral) (float_of_int 0)
   \<and> acidVoltage (begin_sensor stored_neutral) = Fin (15107441 / 8192)
   \<and> preferences (begin_sensor stored_neutral) ''voltage4'' = Some (Fin (15107441 / 8192))"
proof -
  have z: "feq (getFloat ''voltage7'' (float_of_int 0) stored_zero) (float_of_int 0)"
    "\<not> feq (getFloat ''voltage4'' (float_of_int 0) stored_zero) (float_of_int 0)"
    "getFloat ''voltage4'' (float_of_int 0) stored_zero = Fin 1800"
    "preferences stored_zero ''voltage4'' = Some (Fin 1800)"
    by (simp_all add: stored_zero_def getFloat_def float_of_int_0 feq_zero)
  have n: "\<not> feq (getFloat ''voltage7'' (float_of_int 0) stored_neutral) (float_of_int 0)"
    "feq (getFloat ''voltage4'' (float_of_int 0) stored_neutral) (float_of_int 0)"
    "getFloat ''voltage7'' (float_of_int 0) stored_neutral = Fin 1400"
    "preferences stored_neutral ''voltage7'' = Some (Fin 1400)"
    by (simp_all add: stored_neutral_def getFloat_def float_of_int_0 feq_zero)
  show ?thesis
    using begin_zero_sentinel [of stored_zero] begin_zero_sentinel [of stored_neutral] z n
    by (simp add: float_1348_68_value float_1844_17_value)
qed

section \<open>Rounding errors\<close>

text \<open>
  The exponent found by \<open>ilog2\<close> is the right one, and rounding a value of the normal
  range changes it by at most the relative error \<open>2^-p\<close> of the format.
\<close>

lemma pow2_powi: "pow2 e = 2 powi e"
  by (simp add: pow2_def power_int_def power_one_over inverse_eq_divide)



lemma pow2_diff: "pow2 (a - b) = pow2 a / pow2 b"
  by (simp add: pow2_powi power_int_diff)






























text \<open>
  The steps of \<open>readPH\<close> for a neutral constant below and an acid constant above
  1500 mV: the offsets from 1500 mV, the slope, the products with the slope, and the
  intercept with the two results.
\<close>

lemma seven_minus_four: "fsub binary64 (Fin 7) (Fin 4) = Fin 3"
  by code_simp






section \<open>The pH model\<close>

lemma readPH_depends_on_constants:
  assumes "neutralVoltage s = neutralVoltage s'" and "acidVoltage s = acidVoltage s'"
  shows "fst (readPH v t s) = fst (readPH v t' s')"
  using assms by (simp add: readPH_def Let_def)

lemma readPH_snd: "snd (readPH v t s) = s\<lparr>phValue := fst (readPH v t s)\<rparr>"
  by (simp add: readPH_def Let_def)

lemma constructor_fields:
  "neutralVoltage (constructor s) = float_1348_68"
  "acidVoltage (constructor s) = float_1844_17"
  by (simp_all add: constructor_def)


lemma degenerate_fields:
  "neutralVoltage degenerate = Fin 1400"
  "acidVoltage degenerate = Fin 1400"
  "phValue degenerate = to_float (Fin 7)"
  by (simp_all add: degenerate_def begin_neutral begin_acid begin_frame getFloat_def
      feq_zero power_on_fields)

text \<open>Four evaluations of the model, in the arithmetic of the code.\<close>

lemma ph_default_neutral:
  "fst (readPH (Fin (11048387 / 8192)) t
     (blank\<lparr>neutralVoltage := Fin (11048387 / 8192), acidVoltage := Fin (15107441 / 8192)\<rparr>))
   = Fin 7"
  by (simp only: readPH_def Let_def fst_conv state.simps) code_simp

lemma ph_default_acid:
  "fst (readPH (Fin (15107441 / 8192)) t
     (blank\<lparr>neutralVoltage := Fin (11048387 / 8192), acidVoltage := Fin (15107441 / 8192)\<rparr>))
   = Fin (8388609 / 2097152)"
  by (simp only: readPH_def Let_def fst_conv state.simps) code_simp


lemma ph_degenerate:
  "fst (readPH (Fin 1503) t (blank\<lparr>neutralVoltage := Fin 1400, acidVoltage := Fin 1400\<rparr>))
   = PInf"
  by (simp only: readPH_def Let_def fst_conv state.simps) code_simp

lemma seven_as_float: "to_float (Fin 7) = Fin 7"
  by code_simp

text \<open>
  The default constants: \<open>readPH\<close> returns 7.0 at the neutral voltage and 4.0000005
  at the acid voltage.
\<close>

lemma readPH_default_points:
  "approx (fst (readPH (neutralVoltage (constructor s)) t (constructor s))) 7 (1 / 10 ^ 6)
   \<and> approx (fst (readPH (acidVoltage (constructor s)) t (constructor s))) 4 (1 / 10 ^ 6)"
proof -
  let ?b = "blank\<lparr>neutralVoltage := Fin (11048387 / 8192),
    acidVoltage := Fin (15107441 / 8192)\<rparr>"
  have c: "neutralVoltage (constructor s) = neutralVoltage ?b"
    "acidVoltage (constructor s) = acidVoltage ?b"
    by (simp_all add: constructor_fields float_1348_68_value float_1844_17_value)
  have n: "fst (readPH (Fin (11048387 / 8192)) t (constructor s)) = Fin 7"
    using readPH_depends_on_constants [OF c, of "Fin (11048387 / 8192)" t t]
    by (simp only: ph_default_neutral)
  have a: "fst (readPH (Fin (15107441 / 8192)) t (constructor s)) = Fin (8388609 / 2097152)"
    using readPH_depends_on_constants [OF c, of "Fin (15107441 / 8192)" t t]
    by (simp only: ph_default_acid)
  show ?thesis
    using n a
    by (simp add: constructor_fields float_1348_68_value float_1844_17_value approx_def
        is_finite_def valof_def)
qed




subsection \<open>Equal constants\<close>

lemma fsub_feq: "feq x y \<Longrightarrow> fsub fmt x (Fin 1500) = fsub fmt y (Fin 1500)"
  by (cases x; cases y)
     (auto simp: feq_def fsub_def fadd_def fneg_def is_nan_def is_inf_def is_finite_def
        valof_def signbit_def Let_def split: if_splits)

lemma fsub_self: "fsub fmt c c = Fin 0 \<or> fsub fmt c c = NaN"
  by (cases c)
     (auto simp: fsub_def fadd_def fneg_def is_nan_def is_inf_def valof_def signbit_def
        zero_s_def Let_def)

lemma slope_degenerate:
  "d = Fin 0 \<or> d = NaN \<Longrightarrow> \<not> is_finite (to_float (fdiv binary64 (Fin 3) d))"
  by (auto simp: fdiv_def is_nan_def is_inf_def is_zero_def signbit_def inf_s_def
      to_float_def is_finite_def)

lemma fmul_nonfinite: "\<not> is_finite x \<Longrightarrow> \<not> is_finite (fmul fmt x y)"
  by (cases x) (auto simp: fmul_def is_finite_def is_nan_def is_inf_def inf_s_def)

lemma fdiv_nonfinite: "\<not> is_finite x \<Longrightarrow> \<not> is_finite (fdiv fmt x (Fin 3))"
  by (cases x) (auto simp: fdiv_def is_finite_def is_nan_def is_inf_def inf_s_def)

lemma fsub_nonfinite: "\<not> is_finite y \<Longrightarrow> \<not> is_finite (fsub fmt (Fin 7) y)"
  by (cases y) (auto simp: fsub_def fadd_def fneg_def is_finite_def is_nan_def is_inf_def)

lemma fadd_nonfinite: "\<not> is_finite y \<Longrightarrow> \<not> is_finite (fadd fmt x y)"
  by (cases y; cases x) (auto simp: fadd_def is_finite_def is_nan_def is_inf_def)

lemma to_float_nonfinite: "\<not> is_finite x \<Longrightarrow> \<not> is_finite (to_float x)"
  by (cases x) (auto simp: to_float_def is_finite_def)

text \<open>
  Claim C4, as the code has it. \<open>readPH\<close> has no guard for equal constants: when
  \<open>_neutralVoltage == _acidVoltage\<close> the denominator of the slope is zero, the division
  is carried out, and for every voltage and temperature the value returned is not finite
  (an infinity or NaN). It is stored in \<open>_phValue\<close> in place of the last pH value, and
  nothing else in the state changes: no error is reported.
\<close>

theorem readPH_degenerate:
  assumes "feq (neutralVoltage s) (acidVoltage s)"
  shows "\<not> is_finite (fst (readPH v t s))
    \<and> snd (readPH v t s) = s\<lparr>phValue := fst (readPH v t s)\<rparr>"
proof -
  let ?c = "fdiv binary64 (fsub binary64 (acidVoltage s) (Fin 1500)) (Fin 3)"
  let ?slope = "to_float (fdiv binary64 (Fin 3) (fsub binary64 ?c ?c))"
  have eq: "fsub binary64 (neutralVoltage s) (Fin 1500)
      = fsub binary64 (acidVoltage s) (Fin 1500)"
    using assms by (rule fsub_feq)
  have sl: "\<not> is_finite ?slope"
    using fsub_self [of binary64 ?c] by (rule slope_degenerate)
  let ?icpt = "to_float (fsub binary64 (Fin 7)
      (fdiv binary64 (fmul binary64 ?slope (fsub binary64 (acidVoltage s) (Fin 1500)))
         (Fin 3)))"
  have ic: "\<not> is_finite ?icpt"
    by (intro to_float_nonfinite fsub_nonfinite fdiv_nonfinite fmul_nonfinite sl)
  have "\<not> is_finite (to_float (fadd binary64
      (fdiv binary64 (fmul binary64 ?slope (fsub binary64 v (Fin 1500))) (Fin 3)) ?icpt))"
    by (intro to_float_nonfinite fadd_nonfinite ic)
  then show ?thesis
    by (simp add: readPH_def Let_def eq seven_minus_four)
qed

theorem readPH_degenerate_witness:
  "feq (neutralVoltage degenerate) (acidVoltage degenerate)
   \<and> \<not> is_finite (fst (readPH (Fin 1503) (Fin 25) degenerate))
   \<and> snd (readPH (Fin 1503) (Fin 25) degenerate)
       = degenerate\<lparr>phValue := fst (readPH (Fin 1503) (Fin 25) degenerate)\<rparr>"
proof -
  have h: "feq (neutralVoltage degenerate) (acidVoltage degenerate)"
    by (simp add: degenerate_fields feq_def is_nan_def is_finite_def)
  show ?thesis
    using readPH_degenerate [OF h, of "Fin 1503" "Fin 25"] h by simp
qed

text \<open>
  The claim as written fails: with 1400 mV stored for both constants and 7.0 as the
  last pH value, \<open>readPH\<close> at 1503 mV returns plus infinity and stores it as the pH
  value.
\<close>

theorem readPH_degenerate_returns_infinity:
  "feq (neutralVoltage degenerate) (acidVoltage degenerate)
   \<and> phValue degenerate = Fin 7
   \<and> fst (readPH (Fin 1503) (Fin 25) degenerate) = PInf
   \<and> phValue (snd (readPH (Fin 1503) (Fin 25) degenerate)) = PInf"
proof -
  let ?b = "blank\<lparr>neutralVoltage := Fin 1400, acidVoltage := Fin 1400\<rparr>"
  have c: "neutralVoltage degenerate = neutralVoltage ?b"
    "acidVoltage degenerate = acidVoltage ?b"
    by (simp_all add: degenerate_fields)
  have v: "fst (readPH (Fin 1503) (Fin 25) degenerate) = PInf"
    using readPH_depends_on_constants [OF c, of "Fin 1503" "Fin 25" "Fin 25"]
    by (simp only: ph_degenerate)
  show ?thesis
    using v
    by (simp add: readPH_snd degenerate_fields seven_as_float feq_def is_nan_def
        is_finite_def)
qed

section \<open>Sequences of commands\<close>








end
